theory Spec2Isabelle
  imports Main "HOL-Library.AList" "HOL-Library.Char_ord" "HOL-Library.List_Lexorder"
begin

section \<open>Content types and the ordered content-type set\<close>

text \<open>
  A \<open>ContentType\<close> is a Go string. The constants are those of the source.
\<close>

type_synonym ContentType = string

definition ContentTypeNone :: ContentType where
  "ContentTypeNone = ''''"

definition ContentTypeDefault :: ContentType where
  "ContentTypeDefault = ''*/*''"

definition ContentTypeJSON :: ContentType where
  "ContentTypeJSON = ''application/json''"

definition ContentTypeEventStream :: ContentType where
  "ContentTypeEventStream = ''text/event-stream''"


definition ContentTypeXML :: ContentType where
  "ContentTypeXML = ''text/xml''"

text \<open>
  Go's \<open>int\<close> is taken to be 64 bits wide (amd64, arm64). \<open>wrap_int\<close> is the
  two's-complement wrap-around of an arithmetic result, as \<open>set.pos++\<close> performs it.
\<close>

definition wrap_int :: "int \<Rightarrow> int" where
  "wrap_int x = (x + 2 ^ 63) mod 2 ^ 64 - 2 ^ 63"

text \<open>
  \<open>type ContentTypeSet struct { set []ContentType; pos int }\<close>. The methods take a
  pointer receiver that may be nil: a \<open>*ContentTypeSet\<close> is a
  \<open>ContentTypeSet option\<close>, with \<open>None\<close> for nil. A method that advances the cursor
  returns the updated structure next to its result.
\<close>

record ContentTypeSet =
  set_list :: "ContentType list"
  pos :: int

datatype fault =
  IndexOutOfRange
  | NilFuncCall
  | UnlockOfUnlockedRWMutex
  | NotAChannel

text \<open>\<open>Next\<close>: nil gives false; otherwise \<open>set.pos++; return set.pos < len(set.set)\<close>.\<close>

fun Next :: "ContentTypeSet option \<Rightarrow> bool \<times> ContentTypeSet option" where
  "Next None = (False, None)"
| "Next (Some s) =
     (let s' = s\<lparr>pos := wrap_int (pos s + 1)\<rparr>
      in (pos s' < int (length (set_list s')), Some s'))"

fun Reset :: "ContentTypeSet option \<Rightarrow> ContentTypeSet option" where
  "Reset None = None"
| "Reset (Some s) = Some (s\<lparr>pos := -1\<rparr>)"

text \<open>
  \<open>Type\<close> clamps the cursor into the slice and indexes it. On a non-nil set whose slice
  is empty the clamped index is \<open>-1\<close> and the index expression panics.
\<close>

fun Type :: "ContentTypeSet option \<Rightarrow> fault + ContentType" where
  "Type None = Inr ''''"
| "Type (Some s) =
     (let n = int (length (set_list s));
          p = pos s;
          p = (if p \<ge> n then n - 1 else if p \<le> 0 then 0 else p)
      in if 0 \<le> p \<and> p < n then Inr (set_list s ! nat p) else Inl IndexOutOfRange)"

fun Types :: "ContentTypeSet option \<Rightarrow> ContentType list" where
  "Types None = []"
| "Types (Some s) = (if length (set_list s) = 0 then [] else set_list s)"

text \<open>The range loop of \<open>Has\<close> (and of the duplicate check in \<open>NewContentTypeSet\<close>).\<close>

fun has_loop :: "ContentType list \<Rightarrow> ContentType \<Rightarrow> bool" where
  "has_loop [] contentType = False"
| "has_loop (c # cs) contentType = (if c = contentType then True else has_loop cs contentType)"

fun Has :: "ContentTypeSet option \<Rightarrow> ContentType \<Rightarrow> bool" where
  "Has None contentType = False"
| "Has (Some s) contentType = has_loop (set_list s) contentType"

text \<open>
  \<open>mime.ParseMediaType\<close> belongs to Go's standard library. The set constructor uses its
  first result (the media type, lower-cased, without parameters) and whether it failed;
  it is a parameter \<open>parse\<close> of the model, \<open>None\<close> standing for a non-nil error.
\<close>

type_synonym parser = "string \<Rightarrow> ContentType option"

text \<open>
  The outer loop of \<open>NewContentTypeSet\<close>, with \<open>acc\<close> for \<open>set.set\<close>: skip a string that
  fails to parse, skip a media type that was seen before, append otherwise.
\<close>

fun NewContentTypeSet_loop :: "parser \<Rightarrow> string list \<Rightarrow> ContentType list \<Rightarrow> ContentType list" where
  "NewContentTypeSet_loop parse [] acc = acc"
| "NewContentTypeSet_loop parse (t # ts) acc =
     (case parse t of
        None \<Rightarrow> NewContentTypeSet_loop parse ts acc
      | Some mediaType \<Rightarrow>
          if has_loop acc mediaType then NewContentTypeSet_loop parse ts acc
          else NewContentTypeSet_loop parse ts (acc @ [mediaType]))"

definition NewContentTypeSet :: "parser \<Rightarrow> string list \<Rightarrow> ContentTypeSet option" where
  "NewContentTypeSet parse types =
     (if length types = 0 then None
      else let s = NewContentTypeSet_loop parse types []
           in if length s = 0 then None else Some \<lparr>set_list = s, pos = -1\<rparr>)"

text \<open>
  \<open>strings.Split(s, ",")\<close>: the fields between the commas; one empty field for the empty
  string.
\<close>

fun strings_Split :: "string \<Rightarrow> string list" where
  "strings_Split [] = [[]]"
| "strings_Split (c # cs) =
     (if c = CHR '','' then [] # strings_Split cs
      else (case strings_Split cs of
              [] \<Rightarrow> [[c]]
            | f # fs \<Rightarrow> (c # f) # fs))"

text \<open>
  The parts of \<open>*http.Request\<close> the package reads: the Accept and Content-Type headers
  (\<open>Header.Get\<close> gives the empty string for an absent header), the body, the values stored
  in the context under \<open>ContentTypeCtxKey\<close> and \<open>StatusCtxKey\<close> (\<open>None\<close> when the type
  assertion fails), and the protocol's major version.
\<close>

record request =
  header_Accept :: string
  header_ContentType :: string
  body :: string
  ctx_ContentType :: "ContentType option"
  ctx_Status :: "int option"
  ProtoMajor :: int

definition GetAcceptedContentType :: "parser \<Rightarrow> request \<Rightarrow> ContentTypeSet option" where
  "GetAcceptedContentType parse r =
     (case ctx_ContentType r of
        Some contentType \<Rightarrow> NewContentTypeSet parse [contentType]
      | None \<Rightarrow> NewContentTypeSet parse (strings_Split (header_Accept r)))"

definition GetRequestContentType :: "parser \<Rightarrow> request \<Rightarrow> ContentType \<Rightarrow> ContentType" where
  "GetRequestContentType parse r dflt =
     (case ctx_ContentType r of
        Some contentType \<Rightarrow>
          if contentType \<noteq> '''' then contentType
          else (case parse (header_ContentType r) of None \<Rightarrow> dflt | Some ct \<Rightarrow> ct)
      | None \<Rightarrow> (case parse (header_ContentType r) of None \<Rightarrow> dflt | Some ct \<Rightarrow> ct))"

section \<open>Errors, values and the response sink\<close>

text \<open>
  Go's \<open>error\<close> values, as far as the package tells them apart: the sentinel
  \<open>ErrCanNotEncodeObject\<close>, an error with a message, and an error wrapped by
  \<open>fmt.Errorf("...: %w", err)\<close>. \<open>err_Error\<close> is the method \<open>Error()\<close>, and
  \<open>errors_Is\<close> walks the chain of wrapped errors as \<open>errors.Is\<close> does.
\<close>

datatype error =
  ErrCanNotEncodeObject
  | ErrMsg string
  | Wrapped string error

fun err_Error :: "error \<Rightarrow> string" where
  "err_Error ErrCanNotEncodeObject = ''error can not encode object''"
| "err_Error (ErrMsg s) = s"
| "err_Error (Wrapped prefix err) = prefix @ err_Error err"

fun errors_Is :: "error \<Rightarrow> error \<Rightarrow> bool" where
  "errors_Is (Wrapped prefix err) target =
     (if Wrapped prefix err = target then True else errors_Is err target)"
| "errors_Is err target = (err = target)"

text \<open>
  The response sink is \<open>http.ResponseWriter\<close>. The model records the calls made on it,
  in order: \<open>w.Header().Set\<close>, \<open>w.Header().Del\<close>, \<open>w.WriteHeader\<close>, \<open>w.Write\<close> and
  \<open>Flush\<close>. \<open>flusher\<close> says whether the writer implements \<open>http.Flusher\<close>.
\<close>

datatype sink_op =
  OpHeaderSet string string
  | OpHeaderDel string
  | OpWriteHeader int
  | OpWrite string
  | OpFlush

record sink =
  log :: "sink_op list"
  flusher :: bool

definition emit :: "sink \<Rightarrow> sink_op list \<Rightarrow> sink" where
  "emit w ops = w\<lparr>log := log w @ ops\<rparr>"

definition Header_Set :: "sink \<Rightarrow> string \<Rightarrow> string \<Rightarrow> sink" where
  "Header_Set w k v = emit w [OpHeaderSet k v]"

definition Header_Del :: "sink \<Rightarrow> string \<Rightarrow> sink" where
  "Header_Del w k = emit w [OpHeaderDel k]"

definition WriteHeader :: "sink \<Rightarrow> int \<Rightarrow> sink" where
  "WriteHeader w code = emit w [OpWriteHeader code]"

definition Write :: "sink \<Rightarrow> string \<Rightarrow> sink" where
  "Write w b = emit w [OpWrite b]"

text \<open>\<open>if f, ok := w.(http.Flusher); ok { f.Flush() }\<close>\<close>

definition flushIfFlusher :: "sink \<Rightarrow> sink" where
  "flushIfFlusher w = (if flusher w then emit w [OpFlush] else w)"

definition NL :: string where
  "NL = [CHR 0x0A]"

text \<open>
  \<open>http.Error\<close> of net/http: it removes Content-Length, sets the plain-text content type
  and the nosniff option, writes the status code and then the message and a newline.
\<close>

definition http_Error :: "sink \<Rightarrow> string \<Rightarrow> int \<Rightarrow> sink" where
  "http_Error w msg code =
     (let w = Header_Del w ''Content-Length'';
          w = Header_Set w ''Content-Type'' ''text/plain; charset=utf-8'';
          w = Header_Set w ''X-Content-Type-Options'' ''nosniff'';
          w = WriteHeader w code
      in Write w (msg @ NL))"




text \<open>The bodies written, one entry for each \<open>Write\<close>.\<close>

fun writes :: "sink_op list \<Rightarrow> string list" where
  "writes [] = []"
| "writes (OpWrite b # ops) = b # writes ops"
| "writes (OpHeaderSet k v # ops) = writes ops"
| "writes (OpHeaderDel k # ops) = writes ops"
| "writes (OpWriteHeader code # ops) = writes ops"
| "writes (OpFlush # ops) = writes ops"

text \<open>
  A value \<open>v interface{}\<close> handed to a responder. A channel is represented by what the
  receiving loop observes of it in one run: the successive results of
  \<open>reflect.Select\<close> over \<open>ctx.Done()\<close> and the channel, that is, the select took the
  case of the cancelled context, an item was received, or the channel was found
  closed. Which case the select takes when both are ready is Go's choice and is part
  of the run: the context counts as cancelled, for the loop, from the moment the
  select takes its case. A run whose list of results is used up waits forever.
  \<open>VRenderer\<close> is a value whose type implements \<open>Renderer\<close>, \<open>VObj\<close> any other value.
\<close>

datatype 'x select =
  CtxDone
  | Recv 'x
  | ChanClosed

datatype 'a "value" =
  VNil
  | VString string
  | VObj 'a
  | VRenderer 'a
  | VError error
  | VSlice "'a value list"
  | VChan "'a value select list"

text \<open>\<open>v != nil\<close> and \<open>reflect.TypeOf(v).Kind() == reflect.Chan\<close>\<close>

fun isChan :: "'a value \<Rightarrow> bool" where
  "isChan (VChan tr) = True"
| "isChan v = False"

text \<open>\<open>rv, ok := v.(Renderer)\<close>\<close>

fun isRenderer :: "'a value \<Rightarrow> bool" where
  "isRenderer (VRenderer x) = True"
| "isRenderer v = False"

text \<open>
  The functions the package calls without defining them here. From the standard
  library: \<open>mime.ParseMediaType\<close>, the JSON encoder with HTML escaping (whose output ends
  in a newline), \<open>json.Marshal\<close>, \<open>xml.Marshal\<close>, and the methods \<open>MarshalText\<close> and
  \<open>String\<close> of a value that implements \<open>encoding.TextMarshaler\<close> or \<open>fmt.Stringer\<close>
  (\<open>None\<close> when it does not). From the package itself: \<open>renderer\<close>, which runs the
  \<open>Render\<close> methods of a value against the response writer and the request; its effect
  on the writer is the list of calls it makes.
\<close>

record 'a extern =
  mime_ParseMediaType :: parser
  json_Encode :: "'a value \<Rightarrow> error + string"
  json_Marshal :: "'a value \<Rightarrow> error + string"
  xml_Marshal :: "'a value \<Rightarrow> error + string"
  text_MarshalText :: "'a value \<Rightarrow> (error + string) option"
  fmt_String :: "'a value \<Rightarrow> string option"
  renderer :: "request \<Rightarrow> 'a value \<Rightarrow> error option \<times> sink_op list"

text \<open>
  A call either returns, panics, or waits forever on a channel that neither delivers
  nor closes while the context is never cancelled.
\<close>

datatype 'r outcome =
  Returns 'r
  | Panics fault
  | Blocks

type_synonym 'a RespondFunc = "sink \<Rightarrow> request \<Rightarrow> 'a value \<Rightarrow> error option outcome \<times> sink"

section \<open>The responders\<close>

definition setNosniff :: "sink \<Rightarrow> sink" where
  "setNosniff w = Header_Set w ''X-Content-Type-Options'' ''nosniff''"

text \<open>\<open>if status, ok := r.Context().Value(StatusCtxKey).(int); ok { w.WriteHeader(status) }\<close>\<close>

definition writeStatusHint :: "sink \<Rightarrow> request \<Rightarrow> sink" where
  "writeStatusHint w r = (case ctx_Status r of Some status \<Rightarrow> WriteHeader w status | None \<Rightarrow> w)"

definition JSON :: "'a extern \<Rightarrow> 'a RespondFunc" where
  "JSON c w r v =
     (case json_Encode c v of
        Inl err \<Rightarrow> (Returns (Some (Wrapped ''JSON encode: '' err)), w)
      | Inr buf \<Rightarrow>
          (let w = setNosniff w;
               w = Header_Set w ''Content-Type'' ''application/json; charset=utf-8'';
               w = writeStatusHint w r;
               w = Write w buf
           in (Returns None, w)))"

text \<open>\<open>bytes.Contains(b, subslice)\<close>\<close>

fun bytes_Contains :: "string \<Rightarrow> string \<Rightarrow> bool" where
  "bytes_Contains [] subslice = (subslice = [])"
| "bytes_Contains (x # xs) subslice =
     (if take (length subslice) (x # xs) = subslice then True else bytes_Contains xs subslice)"

definition xml_Header :: string where
  "xml_Header = ''<?xml version=\"1.0\" encoding=\"UTF-8\"?>'' @ NL"

definition XML :: "'a extern \<Rightarrow> 'a RespondFunc" where
  "XML c w r v =
     (case xml_Marshal c v of
        Inl err \<Rightarrow> (Returns (Some (Wrapped ''XML marshal: '' err)), w)
      | Inr b \<Rightarrow>
          (let w = setNosniff w;
               w = Header_Set w ''Content-Type'' ''application/xml; charset=utf-8'';
               w = writeStatusHint w r;
               findHeaderUntil = int (length b);
               findHeaderUntil = (if findHeaderUntil > 100 then 100 else findHeaderUntil);
               w = (if \<not> bytes_Contains (take (nat findHeaderUntil) b) ''<?xml''
                    then Write w xml_Header else w);
               w = Write w b
           in (Returns None, w)))"


section \<open>The stream adapter\<close>

text \<open>
  Both channel loops treat a received item alike: when it implements \<open>Renderer\<close>, the
  function \<open>renderer\<close> is run on it, and its error, if any, takes the item's place.
\<close>

definition renderItem :: "'a extern \<Rightarrow> sink \<Rightarrow> request \<Rightarrow> 'a value \<Rightarrow> 'a value \<times> sink" where
  "renderItem c w r v =
     (if isRenderer v then
        (case renderer c r v of
           (Some err, ops) \<Rightarrow> (VError err, emit w ops)
         | (None, ops) \<Rightarrow> (v, emit w ops))
      else (v, w))"

definition timeoutFrame :: string where
  "timeoutFrame = ''event: error'' @ NL @ ''data: {\"error\":\"Server Timeout\"}'' @ NL @ NL"

definition eofFrame :: string where
  "eofFrame = ''event: EOF'' @ NL @ NL"

definition errorFrame :: "error \<Rightarrow> string" where
  "errorFrame err = ''event: error'' @ NL @ ''data: {\"error\":\"'' @ err_Error err @ ''\"}'' @ NL @ NL"

definition dataFrame :: "string \<Rightarrow> string" where
  "dataFrame bytes = ''event: data'' @ NL @ ''data: '' @ bytes @ NL @ NL"

text \<open>The \<open>for\<close> loop of \<open>channelEventStream\<close>, one step for each result of the select.\<close>

fun channelEventStream_loop ::
  "'a extern \<Rightarrow> sink \<Rightarrow> request \<Rightarrow> 'a value select list \<Rightarrow> error option outcome \<times> sink" where
  "channelEventStream_loop c w r [] = (Blocks, w)"
| "channelEventStream_loop c w r (CtxDone # tr) = (Returns None, Write w timeoutFrame)"
| "channelEventStream_loop c w r (ChanClosed # tr) = (Returns None, Write w eofFrame)"
| "channelEventStream_loop c w r (Recv item # tr) =
     (case renderItem c w r item of
        (v, w) \<Rightarrow>
          (case json_Marshal c v of
             Inl err \<Rightarrow> channelEventStream_loop c (flushIfFlusher (Write w (errorFrame err))) r tr
           | Inr bytes \<Rightarrow> channelEventStream_loop c (flushIfFlusher (Write w (dataFrame bytes))) r tr))"

definition channelEventStream :: "'a extern \<Rightarrow> 'a RespondFunc" where
  "channelEventStream c w r v =
     (case v of
        VChan tr \<Rightarrow>
          (let w = Header_Set w ''Content-Type'' ''text/event-stream; charset=utf-8'';
               w = Header_Set w ''Cache-Control'' ''no-cache'';
               w = (if ProtoMajor r = 1 then Header_Set w ''Connection'' ''keep-alive'' else w);
               w = WriteHeader w 200
           in channelEventStream_loop c w r tr)
      | _ \<Rightarrow> (Panics NotAChannel, w))"

text \<open>The \<open>for\<close> loop of \<open>channelIntoSlice\<close>, with the slice \<open>to\<close> built so far.\<close>

fun channelIntoSlice_loop ::
  "'a extern \<Rightarrow> sink \<Rightarrow> request \<Rightarrow> 'a value select list \<Rightarrow> 'a value list \<Rightarrow> 'a value outcome \<times> sink" where
  "channelIntoSlice_loop c w r [] to = (Blocks, w)"
| "channelIntoSlice_loop c w r (CtxDone # tr) to = (Returns VNil, http_Error w ''Server Timeout'' 504)"
| "channelIntoSlice_loop c w r (ChanClosed # tr) to = (Returns (VSlice to), w)"
| "channelIntoSlice_loop c w r (Recv item # tr) to =
     (case renderItem c w r item of
        (v, w) \<Rightarrow> channelIntoSlice_loop c w r tr (to @ [v]))"

definition channelIntoSlice ::
  "'a extern \<Rightarrow> sink \<Rightarrow> request \<Rightarrow> 'a value \<Rightarrow> 'a value outcome \<times> sink" where
  "channelIntoSlice c w r from =
     (case from of
        VChan tr \<Rightarrow> channelIntoSlice_loop c w r tr []
      | _ \<Rightarrow> (Panics NotAChannel, w))"

section \<open>The registry of responders and the negotiation\<close>

text \<open>
  \<open>respondMapper\<close> is a Go map from content types to functions that may be nil: a list
  of pairs with distinct keys, \<open>None\<close> for the nil function. \<open>SetResponder\<close> is the map
  assignment \<open>respondMapper[contentType] = responder\<close>. The read/write lock is left out,
  except where a call is made on it that stops the program.
\<close>

type_synonym 'a registry = "(ContentType \<times> 'a RespondFunc option) list"

definition respondMapper :: "'a extern \<Rightarrow> 'a registry" where
  "respondMapper c =
     [(ContentTypeDefault, Some (JSON c)),
      (ContentTypeJSON, Some (JSON c)),
      (ContentTypeXML, Some (XML c)),
      (ContentTypeEventStream, Some (channelEventStream c))]"

definition SetResponder :: "ContentType \<Rightarrow> 'a RespondFunc option \<Rightarrow> 'a registry \<Rightarrow> 'a registry" where
  "SetResponder contentType responder reg = AList.update contentType responder reg"

definition SupportedResponders :: "'a extern \<Rightarrow> 'a registry \<Rightarrow> ContentTypeSet option" where
  "SupportedResponders c reg = NewContentTypeSet (mime_ParseMediaType c) (sort (map fst reg))"

text \<open>
  A call \<open>fn(w, r, v)\<close> of a function taken from the map, followed by
  \<open>http.Error(w, err.Error(), http.StatusInternalServerError)\<close> when it returns an error
  that ends the negotiation. Calling the nil function panics.
\<close>

definition respondWith ::
  "'a RespondFunc option \<Rightarrow> sink \<Rightarrow> request \<Rightarrow> 'a value \<Rightarrow> unit outcome \<times> sink" where
  "respondWith fn w r v =
     (case fn of
        None \<Rightarrow> (Panics NilFuncCall, w)
      | Some f \<Rightarrow>
          (case f w r v of
             (Returns None, w') \<Rightarrow> (Returns (), w')
           | (Returns (Some err), w') \<Rightarrow> (Returns (), http_Error w' (err_Error err) 500)
           | (Panics x, w') \<Rightarrow> (Panics x, w')
           | (Blocks, w') \<Rightarrow> (Blocks, w')))"

text \<open>
  The last statement of \<open>DefaultResponder\<close>:
  \<open>respondMapper[ContentTypeDefault](w, r, v)\<close>. A missing key yields the nil function.
\<close>

definition respondDefault :: "'a registry \<Rightarrow> sink \<Rightarrow> request \<Rightarrow> 'a value \<Rightarrow> unit outcome \<times> sink" where
  "respondDefault reg w r v =
     (case map_of reg ContentTypeDefault of
        None \<Rightarrow> respondWith None w r v
      | Some fn \<Rightarrow> respondWith fn w r v)"

text \<open>
  The loop \<open>for acceptedTypes.Next() { ... }\<close> of \<open>DefaultResponder\<close> and the fallback after
  it. The loop is driven by the cursor of the set, so it is defined without a
  termination argument; that it returns is proved below.
\<close>

partial_function (option) DefaultResponder_loop ::
  "'a registry \<Rightarrow> sink \<Rightarrow> request \<Rightarrow> 'a value \<Rightarrow> ContentTypeSet option \<Rightarrow> (unit outcome \<times> sink) option" where
  "DefaultResponder_loop reg w r v acceptedTypes =
     (case Next acceptedTypes of
        (ok, acceptedTypes) \<Rightarrow>
          if ok then
            (case Type acceptedTypes of
               Inl x \<Rightarrow> Some (Panics x, w)
             | Inr t \<Rightarrow>
                 if t = ContentTypeEventStream then DefaultResponder_loop reg w r v acceptedTypes
                 else (case map_of reg t of
                         None \<Rightarrow> DefaultResponder_loop reg w r v acceptedTypes
                       | Some None \<Rightarrow> Some (Panics NilFuncCall, w)
                       | Some (Some fn) \<Rightarrow>
                           (case fn w r v of
                              (Returns None, w') \<Rightarrow> Some (Returns (), w')
                            | (Returns (Some err), w') \<Rightarrow>
                                if errors_Is err ErrCanNotEncodeObject
                                then DefaultResponder_loop reg w' r v acceptedTypes
                                else Some (Returns (), http_Error w' (err_Error err) 500)
                            | (Panics x, w') \<Rightarrow> Some (Panics x, w')
                            | (Blocks, w') \<Rightarrow> Some (Blocks, w'))))
          else Some (respondDefault reg w r v))"

declare DefaultResponder_loop.simps [code]

text \<open>
  \<open>DefaultResponder\<close>. A channel is streamed when the client accepts the event stream,
  and buffered into a slice otherwise. In the streaming branch
  \<open>respondMapperLck.Unlock()\<close> is called on a lock that is only read-locked when the map
  has no entry for the event stream, which stops the program.
\<close>

definition DefaultResponder ::
  "'a extern \<Rightarrow> 'a registry \<Rightarrow> sink \<Rightarrow> request \<Rightarrow> 'a value \<Rightarrow> (unit outcome \<times> sink) option" where
  "DefaultResponder c reg w r v =
     (let acceptedTypes = GetAcceptedContentType (mime_ParseMediaType c) r
      in if isChan v then
           (if Has acceptedTypes ContentTypeEventStream then
              (case map_of reg ContentTypeEventStream of
                 Some fn \<Rightarrow> Some (respondWith fn w r v)
               | None \<Rightarrow> Some (Panics UnlockOfUnlockedRWMutex, w))
            else
              (case channelIntoSlice c w r v of
                 (Returns v', w') \<Rightarrow> DefaultResponder_loop reg w' r v' acceptedTypes
               | (Panics x, w') \<Rightarrow> Some (Panics x, w')
               | (Blocks, w') \<Rightarrow> Some (Blocks, w')))
         else DefaultResponder_loop reg w r v acceptedTypes)"

section \<open>The registry of decoders\<close>

text \<open>
  \<open>type DecodeFunc func(r io.Reader, v interface{}) error\<close>: a decoder reads the body and
  stores the decoded value through \<open>v\<close>, or returns an error. \<open>decodeMapper\<close> is a Go map
  like \<open>respondMapper\<close>; its initial entries \<open>DecodeJSON\<close> and \<open>DecodeXML\<close> wrap the
  decoders of the standard library and are parameters here.
\<close>

type_synonym 'a DecodeFunc = "string \<Rightarrow> error + 'a value"

type_synonym 'a decoders = "(ContentType \<times> 'a DecodeFunc option) list"

definition decodeMapper :: "'a DecodeFunc \<Rightarrow> 'a DecodeFunc \<Rightarrow> 'a decoders" where
  "decodeMapper DecodeJSON DecodeXML =
     [(ContentTypeJSON, Some DecodeJSON),
      (ContentTypeXML, Some DecodeXML)]"

definition SetDecoder :: "ContentType \<Rightarrow> 'a DecodeFunc option \<Rightarrow> 'a decoders \<Rightarrow> 'a decoders" where
  "SetDecoder contentType decoder dreg = AList.update contentType decoder dreg"

definition SupportedDecoders :: "parser \<Rightarrow> 'a decoders \<Rightarrow> ContentTypeSet option" where
  "SupportedDecoders parse dreg = NewContentTypeSet parse (sort (map fst dreg))"

text \<open>
  \<open>DefaultDecoder\<close>: \<open>if decoder := decodeMapper[ct]; decoder != nil\<close> takes a missing key
  and a nil entry alike.
\<close>

definition DefaultDecoder :: "parser \<Rightarrow> 'a decoders \<Rightarrow> request \<Rightarrow> error + 'a value" where
  "DefaultDecoder parse dreg r =
     (let ct = GetRequestContentType parse r ContentTypeNone
      in case map_of dreg ct of
           Some (Some decoder) \<Rightarrow> decoder (body r)
         | _ \<Rightarrow> Inl (ErrMsg (''render: unable to automatically decode the request content type: ''
                        @ [CHR 0x27] @ ct @ [CHR 0x27])))"

section \<open>Notions used in the statements\<close>

text \<open>The set after \<open>n\<close> calls of \<open>Next\<close>.\<close>

fun NextN :: "nat \<Rightarrow> ContentTypeSet option \<Rightarrow> ContentTypeSet option" where
  "NextN 0 s = s"
| "NextN (Suc n) s = NextN n (snd (Next s))"





text \<open>
  The list without the later occurrences of its elements: what remains when duplicates
  are removed and the order of first occurrence is kept.
\<close>

function firstOccurrences :: "'a list \<Rightarrow> 'a list" where
  "firstOccurrences [] = []"
| "firstOccurrences (x # xs) = x # firstOccurrences (removeAll x xs)"
  by pat_completeness auto
termination
  by (relation "measure length") (auto simp: less_Suc_eq_le length_removeAll_less_eq)

section \<open>An instance of the library functions\<close>

text \<open>
  The statements below hold for every behaviour of the library functions. To evaluate
  them on examples, one instance is fixed. Its parser is the media-type part of
  \<open>mime.ParseMediaType\<close>: the text before the first semicolon, lower-cased and trimmed,
  which must be a token, optionally followed by a slash and a token. The parameters
  after the semicolon are not examined. Its values are Go values given by their JSON
  text.
\<close>

definition isTokenChar :: "char \<Rightarrow> bool" where
  "isTokenChar ch =
     (let n = (of_char ch :: nat)
      in n > 0x20 \<and> n < 0x7f \<and> ch \<notin> set (''()<>@,;:/[]?='' @ [CHR 0x5C, CHR 0x22]))"

definition toLower :: "char \<Rightarrow> char" where
  "toLower ch =
     (let n = (of_char ch :: nat)
      in if 0x41 \<le> n \<and> n \<le> 0x5A then char_of (n + 32) else ch)"

definition isSpace :: "char \<Rightarrow> bool" where
  "isSpace ch =
     (ch = CHR '' '' \<or> ch = CHR 0x09 \<or> ch = CHR 0x0A \<or> ch = CHR 0x0B \<or> ch = CHR 0x0C \<or> ch = CHR 0x0D)"

definition strings_TrimSpace :: "string \<Rightarrow> string" where
  "strings_TrimSpace s = rev (dropWhile isSpace (rev (dropWhile isSpace s)))"

definition checkMediaTypeDisposition :: "string \<Rightarrow> bool" where
  "checkMediaTypeDisposition s =
     (let typ = takeWhile isTokenChar s;
          rest = dropWhile isTokenChar s
      in if typ = [] then False
         else if rest = [] then True
         else if hd rest \<noteq> CHR ''/'' then False
         else (let subtype = takeWhile isTokenChar (tl rest);
                   rest = dropWhile isTokenChar (tl rest)
               in if subtype = [] then False else rest = []))"

definition sample_ParseMediaType :: parser where
  "sample_ParseMediaType v =
     (let base = takeWhile (\<lambda>ch. ch \<noteq> CHR '';'') v;
          mediatype = strings_TrimSpace (map toLower base)
      in if checkMediaTypeDisposition mediatype then Some mediatype else None)"

fun joinFields :: "(error + string) list \<Rightarrow> error + string" where
  "joinFields [] = Inr []"
| "joinFields [x] = x"
| "joinFields (x # y # ys) =
     (case x of
        Inl err \<Rightarrow> Inl err
      | Inr a \<Rightarrow> (case joinFields (y # ys) of Inl err \<Rightarrow> Inl err | Inr b \<Rightarrow> Inr (a @ '','' @ b)))"

fun sample_Marshal :: "string value \<Rightarrow> error + string" where
  "sample_Marshal VNil = Inr ''null''"
| "sample_Marshal (VString s) = Inr ([CHR 0x22] @ s @ [CHR 0x22])"
| "sample_Marshal (VObj js) = Inr js"
| "sample_Marshal (VRenderer js) = Inr js"
| "sample_Marshal (VError err) = Inr ''{}''"
| "sample_Marshal (VSlice vs) =
     (if vs = [] then Inr ''null''
      else (case joinFields (map sample_Marshal vs) of
              Inl err \<Rightarrow> Inl err
            | Inr b \<Rightarrow> Inr (''['' @ b @ '']'')))"
| "sample_Marshal (VChan tr) = Inl (ErrMsg ''json: unsupported type: chan'')"

definition sample_Encode :: "string value \<Rightarrow> error + string" where
  "sample_Encode v = (case sample_Marshal v of Inl err \<Rightarrow> Inl err | Inr b \<Rightarrow> Inr (b @ NL))"

definition sample_xml_Marshal :: "string value \<Rightarrow> error + string" where
  "sample_xml_Marshal v =
     (case v of
        VString s \<Rightarrow> Inr (''<string>'' @ s @ ''</string>'')
      | VObj x \<Rightarrow> Inr (''<obj>'' @ x @ ''</obj>'')
      | _ \<Rightarrow> Inl (ErrMsg ''xml: unsupported type''))"

definition sample :: "string extern" where
  "sample =
     \<lparr>mime_ParseMediaType = sample_ParseMediaType,
      json_Encode = sample_Encode,
      json_Marshal = sample_Marshal,
      xml_Marshal = sample_xml_Marshal,
      text_MarshalText = (\<lambda>v. None),
      fmt_String = (\<lambda>v. None),
      renderer = (\<lambda>r v. (None, []))\<rparr>"

definition request0 :: request where
  "request0 =
     \<lparr>header_Accept = '''', header_ContentType = '''', body = '''',
      ctx_ContentType = None, ctx_Status = None, ProtoMajor = 1\<rparr>"

definition sink0 :: sink where
  "sink0 = \<lparr>log = [], flusher = False\<rparr>"

section \<open>Basic facts about the sink\<close>

lemma emit_emit: "emit (emit w a) b = emit w (a @ b)"
  by (simp add: emit_def)



lemma log_emit: "log (emit w ops) = log w @ ops"
  by (simp add: emit_def)

lemmas sink_calls = Header_Set_def Header_Del_def WriteHeader_def Write_def setNosniff_def
  writeStatusHint_def flushIfFlusher_def http_Error_def

lemma writes_append: "writes (a @ b) = writes a @ writes b"
  by (induction a rule: writes.induct) simp_all

section \<open>The JSON responder buffers before it writes\<close>

text \<open>
  C10. When the JSON encoding of \<open>v\<close> fails, \<open>JSON(w, r, v)\<close> returns a non-nil error,
  the encoder's error wrapped with the prefix "JSON encode: ", and the sink is left as
  it was: no header is set, no status and no body are written.
\<close>

theorem JSON_atomic_on_error:
  assumes "json_Encode c v = Inl err"
  shows "JSON c w r v = (Returns (Some (Wrapped ''JSON encode: '' err)), w)"
  using assms by (simp add: JSON_def)

theorem JSON_atomic_on_error_witness:
  "json_Encode sample (VChan []) = Inl (ErrMsg ''json: unsupported type: chan'')
   \<and> JSON sample sink0 request0 (VChan [])
       = (Returns (Some (Wrapped ''JSON encode: '' (ErrMsg ''json: unsupported type: chan''))), sink0)"
proof -
  have h: "json_Encode sample (VChan []) = Inl (ErrMsg ''json: unsupported type: chan'')"
    by (simp add: sample_def sample_Encode_def)
  show ?thesis
    using JSON_atomic_on_error [OF h, of sink0 request0] h by simp
qed

section \<open>The XML declaration\<close>

text \<open>\<open>bytes_Contains\<close> decides whether the subslice occurs in the slice.\<close>

lemma bytes_Contains_iff: "bytes_Contains s sub \<longleftrightarrow> (\<exists>pre post. s = pre @ sub @ post)"
proof (induction s)
  case Nil
  then show ?case by auto
next
  case (Cons x xs)
  show ?case
  proof (cases "take (length sub) (x # xs) = sub")
    case True
    then have "x # xs = [] @ sub @ drop (length sub) (x # xs)"
      by (metis append_Nil append_take_drop_id)
    then show ?thesis using True by (metis bytes_Contains.simps(2))
  next
    case False
    have "(\<exists>pre post. x # xs = pre @ sub @ post) \<longleftrightarrow> (\<exists>pre post. xs = pre @ sub @ post)"
    proof
      assume "\<exists>pre post. x # xs = pre @ sub @ post"
      then obtain pre post where e: "x # xs = pre @ sub @ post" by blast
      show "\<exists>pre post. xs = pre @ sub @ post"
      proof (cases pre)
        case Nil
        with e have "take (length sub) (x # xs) = sub" by simp
        with False show ?thesis by simp
      next
        case (Cons a pre')
        with e have "xs = pre' @ sub @ post" by simp
        then show ?thesis by blast
      qed
    next
      assume "\<exists>pre post. xs = pre @ sub @ post"
      then obtain pre post where "xs = pre @ sub @ post" by blast
      then have "x # xs = (x # pre) @ sub @ post" by simp
      then show "\<exists>pre post. x # xs = pre @ sub @ post" by blast
    qed
    with False Cons show ?thesis by simp
  qed
qed

text \<open>
  C9. For a value whose XML marshalling gives \<open>b\<close>, the XML responder sets its two
  headers, writes the status hint if there is one, and then writes the generic XML
  declaration before \<open>b\<close> exactly when \<open><?xml\<close> does not occur within the first 100 bytes
  of \<open>b\<close>. In particular, when \<open>b\<close> starts with \<open><?xml\<close>, the only body written is \<open>b\<close>
  itself, so the response carries the declaration of \<open>b\<close> and no second one.
\<close>

theorem XML_header_once:
  assumes "xml_Marshal c v = Inr b"
  shows "XML c w r v =
           (Returns None,
            emit w ([OpHeaderSet ''X-Content-Type-Options'' ''nosniff'',
                     OpHeaderSet ''Content-Type'' ''application/xml; charset=utf-8'']
                    @ (case ctx_Status r of Some status \<Rightarrow> [OpWriteHeader status] | None \<Rightarrow> [])
                    @ (if \<exists>pre post. take 100 b = pre @ ''<?xml'' @ post then [] else [OpWrite xml_Header])
                    @ [OpWrite b]))
         \<and> (take 5 b = ''<?xml'' \<longrightarrow> writes (log (snd (XML c w r v))) = writes (log w) @ [b])"
proof -
  have c: "bytes_Contains (take 100 b) ''<?xml'' \<longleftrightarrow> (\<exists>pre post. take 100 b = pre @ ''<?xml'' @ post)"
    by (rule bytes_Contains_iff)
  have n: "take (nat (if int (length b) > 100 then 100 else int (length b))) b = take 100 b"
    by simp
  have first: "XML c w r v =
           (Returns None,
            emit w ([OpHeaderSet ''X-Content-Type-Options'' ''nosniff'',
                     OpHeaderSet ''Content-Type'' ''application/xml; charset=utf-8'']
                    @ (case ctx_Status r of Some status \<Rightarrow> [OpWriteHeader status] | None \<Rightarrow> [])
                    @ (if \<exists>pre post. take 100 b = pre @ ''<?xml'' @ post then [] else [OpWrite xml_Header])
                    @ [OpWrite b]))"
    unfolding XML_def Let_def n c [symmetric] using assms
    by (simp add: sink_calls emit_emit split: option.split)
  have second: "writes (log (snd (XML c w r v))) = writes (log w) @ [b]" if p: "take 5 b = ''<?xml''"
  proof -
    have "take 5 (take 100 b) = ''<?xml''"
      using p by simp
    moreover have "take 100 b = take 5 (take 100 b) @ drop 5 (take 100 b)"
      by (rule append_take_drop_id [symmetric])
    ultimately have "take 100 b = [] @ ''<?xml'' @ drop 5 (take 100 b)"
      by simp
    then have "\<exists>pre post. take 100 b = pre @ ''<?xml'' @ post" by blast
    then show ?thesis
      unfolding first by (simp add: log_emit writes_append split: option.split)
  qed
  from first second show ?thesis by blast
qed

theorem XML_header_once_witness:
  "xml_Marshal (sample\<lparr>xml_Marshal := (\<lambda>v. Inr ''<?xml version=\"1.1\"?><a></a>'')\<rparr>) (VObj ''a'')
     = Inr ''<?xml version=\"1.1\"?><a></a>''
   \<and> take 5 ''<?xml version=\"1.1\"?><a></a>'' = ''<?xml''
   \<and> writes (log (snd (XML (sample\<lparr>xml_Marshal := (\<lambda>v. Inr ''<?xml version=\"1.1\"?><a></a>'')\<rparr>)
                             sink0 request0 (VObj ''a''))))
       = [''<?xml version=\"1.1\"?><a></a>'']"
proof -
  let ?b = "''<?xml version=\"1.1\"?><a></a>''"
  let ?c = "sample\<lparr>xml_Marshal := (\<lambda>v. Inr ?b)\<rparr>"
  have h: "xml_Marshal ?c (VObj ''a'') = Inr ?b"
    by simp
  have p: "take 5 ?b = ''<?xml''"
    by simp
  have "take 5 ?b = ''<?xml''
        \<longrightarrow> writes (log (snd (XML ?c sink0 request0 (VObj ''a'')))) = writes (log sink0) @ [?b]"
    using XML_header_once [OF h, of sink0 request0] by (rule conjunct2)
  with p have "writes (log (snd (XML ?c sink0 request0 (VObj ''a'')))) = writes (log sink0) @ [?b]"
    by (rule rev_mp)
  then have "writes (log (snd (XML ?c sink0 request0 (VObj ''a'')))) = [?b]"
    by (simp add: sink0_def)
  with h p show ?thesis
    by (intro conjI)
qed

section \<open>The cursor of a content-type set\<close>

lemma wrap_int_id: "- (2 ^ 63) \<le> x \<Longrightarrow> x < 2 ^ 63 \<Longrightarrow> wrap_int x = x"
  unfolding wrap_int_def by (simp add: mod_pos_pos_trivial)

lemma Next_Some:
  assumes "- 1 \<le> p" and "p + 1 < 2 ^ 63"
  shows "Next (Some \<lparr>set_list = xs, pos = p\<rparr>)
         = (p + 1 < int (length xs), Some \<lparr>set_list = xs, pos = p + 1\<rparr>)"
  using assms by (simp add: wrap_int_id)

lemma NextN_None: "NextN n None = None"
  by (induction n) simp_all

lemma NextN_Some:
  assumes "- 1 \<le> p" and "p + int n < 2 ^ 63"
  shows "NextN n (Some \<lparr>set_list = xs, pos = p\<rparr>) = Some \<lparr>set_list = xs, pos = p + int n\<rparr>"
  using assms
proof (induction n arbitrary: p)
  case 0
  then show ?case by simp
next
  case (Suc n)
  have "Next (Some \<lparr>set_list = xs, pos = p\<rparr>)
         = (p + 1 < int (length xs), Some \<lparr>set_list = xs, pos = p + 1\<rparr>)"
    using Suc.prems by (intro Next_Some) auto
  moreover have "NextN n (Some \<lparr>set_list = xs, pos = p + 1\<rparr>) = Some \<lparr>set_list = xs, pos = p + 1 + int n\<rparr>"
    using Suc.prems by (intro Suc.IH) auto
  ultimately show ?case by (simp add: add.assoc add.commute)
qed

text \<open>
  C8. On the nil set, \<open>Next\<close> returns false however often it is called, and \<open>Type\<close>
  returns the empty content type; neither panics. On a set with elements \<open>xs\<close>, as the
  constructors build it (cursor at \<open>-1\<close>): \<open>Type\<close> before the first \<open>Next\<close> returns the
  first element; after more than \<open>length xs\<close> calls of \<open>Next\<close>, that is, once the
  iteration has run past the end, \<open>Type\<close> returns the last element; and every call of
  \<open>Next\<close> from the one after the last element on returns false. The number of calls is
  bounded by the range of the 64-bit cursor, which \<open>Next\<close> increments at each call.
\<close>

theorem cursor_clamped:
  assumes "xs \<noteq> []" and "s = Some \<lparr>set_list = xs, pos = - 1\<rparr>"
  shows "fst (Next (NextN k None)) = False
         \<and> Type (NextN k None) = Inr ContentTypeNone
         \<and> Type s = Inr (hd xs)
         \<and> (length xs < n \<and> int n \<le> 2 ^ 63 \<longrightarrow> Type (NextN n s) = Inr (last xs))
         \<and> (length xs \<le> n \<and> int n < 2 ^ 63 \<longrightarrow> fst (Next (NextN n s)) = False)"
proof -
  have a: "fst (Next (NextN k None)) = False" "Type (NextN k None) = Inr ContentTypeNone"
    by (simp_all add: NextN_None ContentTypeNone_def)
  have b: "Type s = Inr (hd xs)"
    using assms by (simp add: hd_conv_nth)
  have c: "Type (NextN n s) = Inr (last xs)" if "length xs < n" "int n \<le> 2 ^ 63"
  proof -
    have "NextN n s = Some \<lparr>set_list = xs, pos = - 1 + int n\<rparr>"
      unfolding assms(2) using that by (intro NextN_Some) auto
    then show ?thesis
      using that assms(1) by (simp add: last_conv_nth nat_diff_distrib')
  qed
  have d: "fst (Next (NextN n s)) = False" if "length xs \<le> n" "int n < 2 ^ 63"
  proof -
    have "NextN n s = Some \<lparr>set_list = xs, pos = - 1 + int n\<rparr>"
      unfolding assms(2) using that by (intro NextN_Some) auto
    moreover have "Next (Some \<lparr>set_list = xs, pos = - 1 + int n\<rparr>)
         = (- 1 + int n + 1 < int (length xs), Some \<lparr>set_list = xs, pos = - 1 + int n + 1\<rparr>)"
      using that by (intro Next_Some) auto
    ultimately show ?thesis using that by simp
  qed
  from a b c d show ?thesis by blast
qed

theorem cursor_clamped_witness:
  "[''text/html'', ''text/xml''] \<noteq> []
   \<and> length [''text/html'', ''text/xml''] < (3::nat) \<and> int 3 < 2 ^ 63
   \<and> fst (Next (NextN 1 None)) = False
   \<and> Type (NextN 1 None) = Inr ''''
   \<and> Type (Some \<lparr>set_list = [''text/html'', ''text/xml''], pos = - 1\<rparr>) = Inr ''text/html''
   \<and> Type (NextN 3 (Some \<lparr>set_list = [''text/html'', ''text/xml''], pos = - 1\<rparr>)) = Inr ''text/xml''
   \<and> fst (Next (NextN 3 (Some \<lparr>set_list = [''text/html'', ''text/xml''], pos = - 1\<rparr>))) = False"
  using cursor_clamped [of "[''text/html'', ''text/xml'']"
                           "Some \<lparr>set_list = [''text/html'', ''text/xml''], pos = - 1\<rparr>" 1 3]
  by (simp add: ContentTypeNone_def)

section \<open>Building the accepted set\<close>

lemma has_loop_iff: "has_loop cs t \<longleftrightarrow> t \<in> set cs"
  by (induction cs) auto

lemma set_firstOccurrences: "set (firstOccurrences xs) = set xs"
  by (induction xs rule: firstOccurrences.induct) auto

lemma distinct_firstOccurrences: "distinct (firstOccurrences xs)"
  by (induction xs rule: firstOccurrences.induct) (auto simp: set_firstOccurrences)

lemma removeAll_filter_acc:
  "removeAll m (filter (\<lambda>x. x \<notin> set acc) ys) = filter (\<lambda>x. x \<notin> set (acc @ [m])) ys"
  by (induction ys) auto

lemma set_map_filter: "set (List.map_filter f xs) = {y. \<exists>x \<in> set xs. f x = Some y}"
  by (induction xs) (auto simp: List.map_filter_simps split: option.splits)

text \<open>The loop appends to \<open>acc\<close> the first occurrences of the media types not yet in it.\<close>

lemma NewContentTypeSet_loop_eq:
  "NewContentTypeSet_loop parse types acc
   = acc @ firstOccurrences (filter (\<lambda>m. m \<notin> set acc) (List.map_filter parse types))"
proof (induction types arbitrary: acc)
  case Nil
  then show ?case by (simp add: List.map_filter_simps)
next
  case (Cons t ts)
  show ?case
  proof (cases "parse t")
    case None
    then show ?thesis using Cons.IH [of acc] by (simp add: List.map_filter_simps)
  next
    case (Some m)
    show ?thesis
    proof (cases "m \<in> set acc")
      case True
      then show ?thesis using Some Cons.IH [of acc] by (simp add: List.map_filter_simps has_loop_iff)
    next
      case False
      have "removeAll m (filter (\<lambda>m. m \<notin> set acc) (List.map_filter parse ts))
            = filter (\<lambda>x. x \<notin> set (acc @ [m])) (List.map_filter parse ts)"
        by (rule removeAll_filter_acc)
      then show ?thesis
        using False Some Cons.IH [of "acc @ [m]"] by (simp add: List.map_filter_simps has_loop_iff)
    qed
  qed
qed

lemma Types_NewContentTypeSet:
  "Types (NewContentTypeSet parse types) = firstOccurrences (List.map_filter parse types)"
  by (cases types) (simp_all add: NewContentTypeSet_def NewContentTypeSet_loop_eq Let_def List.map_filter_simps)

lemma strings_Split_not_Nil: "strings_Split s \<noteq> []"
  by (induction s) (auto split: list.splits)


text \<open>
  C3. For every Accept header and every behaviour of the media-type parser, the set
  that \<open>GetAcceptedContentType\<close> builds from the header (no content type being forced
  through the context) holds the media types of the comma-separated fields that parse,
  each once, in the order of their first occurrence; fields that fail to parse leave
  no trace. The functions involved are total and have no failing branch, so nothing
  panics. The parameters of a field, such as a quality value, are dropped by the
  parser, which hands over the media type alone.
\<close>

theorem accepted_set_first_occurrences:
  assumes "ctx_ContentType r = None"
  shows "Types (GetAcceptedContentType parse r)
           = firstOccurrences (List.map_filter parse (strings_Split (header_Accept r)))
         \<and> distinct (Types (GetAcceptedContentType parse r))
         \<and> set (Types (GetAcceptedContentType parse r))
             = {t. \<exists>f \<in> set (strings_Split (header_Accept r)). parse f = Some t}"
proof -
  have "Types (GetAcceptedContentType parse r)
           = firstOccurrences (List.map_filter parse (strings_Split (header_Accept r)))"
    using assms by (simp add: GetAcceptedContentType_def Types_NewContentTypeSet)
  moreover have "set (List.map_filter parse (strings_Split (header_Accept r)))
             = {t. \<exists>f \<in> set (strings_Split (header_Accept r)). parse f = Some t}"
    by (rule set_map_filter)
  ultimately show ?thesis
    by (simp add: distinct_firstOccurrences set_firstOccurrences)
qed

theorem accepted_set_first_occurrences_witness:
  "ctx_ContentType (request0\<lparr>header_Accept := ''application/json, text/html;q=0.9, application/json''\<rparr>) = None
   \<and> strings_Split ''application/json, text/html;q=0.9, application/json''
       = [''application/json'', '' text/html;q=0.9'', '' application/json'']
   \<and> Types (GetAcceptedContentType sample_ParseMediaType
               (request0\<lparr>header_Accept := ''application/json, text/html;q=0.9, application/json''\<rparr>))
       = [''application/json'', ''text/html'']"
proof -
  let ?r = "request0\<lparr>header_Accept := ''application/json, text/html;q=0.9, application/json''\<rparr>"
  have h: "ctx_ContentType ?r = None"
    by (simp add: request0_def)
  have s: "strings_Split ''application/json, text/html;q=0.9, application/json''
       = [''application/json'', '' text/html;q=0.9'', '' application/json'']"
    by code_simp
  have e: "firstOccurrences (List.map_filter sample_ParseMediaType
             (strings_Split ''application/json, text/html;q=0.9, application/json''))
           = [''application/json'', ''text/html'']"
    by code_simp
  have "Types (GetAcceptedContentType sample_ParseMediaType ?r)
           = firstOccurrences (List.map_filter sample_ParseMediaType (strings_Split (header_Accept ?r)))"
    using accepted_set_first_occurrences [OF h, of sample_ParseMediaType] by (rule conjunct1)
  with e have "Types (GetAcceptedContentType sample_ParseMediaType ?r) = [''application/json'', ''text/html'']"
    by simp
  with h s show ?thesis
    by (intro conjI)
qed

section \<open>The negotiation loop returns\<close>

lemma DefaultResponder_loop_nil:
  "DefaultResponder_loop reg w r v None = Some (respondDefault reg w r v)"
  by (subst DefaultResponder_loop.simps) simp













text \<open>\<open>SetResponder\<close> never removes a key of the map.\<close>

lemma SetResponder_keeps_keys:
  "map_of reg k \<noteq> None \<Longrightarrow> map_of (SetResponder t fn reg) k \<noteq> None"
  by (simp add: SetResponder_def update_conv')

lemma SetResponder_nil_entry: "map_of (SetResponder t None reg) t = Some None"
  by (simp add: SetResponder_def update_conv')

lemma map_filter_all_None: "\<forall>x \<in> set xs. f x = None \<Longrightarrow> List.map_filter f xs = []"
  by (induction xs) (auto simp: List.map_filter_simps)

section \<open>Falling back to the default responder\<close>




section \<open>Declining and trying the next type\<close>



section \<open>A header without a usable field\<close>

text \<open>
  C7, as amended. When no content type is forced through the context and every
  comma-separated field of the Accept header fails to parse (the empty header has one
  empty field), \<open>GetAcceptedContentType\<close> returns the nil pointer. Every method takes
  nil for the empty set: \<open>Types\<close> gives no element, \<open>Next\<close> returns false, \<open>Has\<close> is false
  for every type. \<open>DefaultResponder\<close> then calls the responder registered under
  \<open>ContentTypeDefault\<close> (on the value, or on the slice a channel was buffered into); the
  lack of entries is not an error.
\<close>

theorem unparsable_header_gives_nil_set:
  assumes "ctx_ContentType r = None"
    and "\<forall>f \<in> set (strings_Split (header_Accept r)). mime_ParseMediaType c f = None"
    and "(if isChan v then channelIntoSlice c w r v else (Returns v, w)) = (Returns v', w')"
  shows "GetAcceptedContentType (mime_ParseMediaType c) r = None
         \<and> Types (GetAcceptedContentType (mime_ParseMediaType c) r) = []
         \<and> fst (Next (GetAcceptedContentType (mime_ParseMediaType c) r)) = False
         \<and> \<not> Has (GetAcceptedContentType (mime_ParseMediaType c) r) t
         \<and> DefaultResponder c reg w r v = Some (respondDefault reg w' r v')"
proof -
  have "List.map_filter (mime_ParseMediaType c) (strings_Split (header_Accept r)) = []"
    using assms(2) by (intro map_filter_all_None)
  then have "NewContentTypeSet_loop (mime_ParseMediaType c) (strings_Split (header_Accept r)) [] = []"
    by (simp add: NewContentTypeSet_loop_eq)
  then have nil: "GetAcceptedContentType (mime_ParseMediaType c) r = None"
    using assms(1) by (simp add: GetAcceptedContentType_def NewContentTypeSet_def)
  have "DefaultResponder c reg w r v = Some (respondDefault reg w' r v')"
    using assms(3) by (cases "isChan v") (simp_all add: DefaultResponder_def nil DefaultResponder_loop_nil)
  with nil show ?thesis by simp
qed

theorem unparsable_header_gives_nil_set_witness:
  "strings_Split ''not a type, ;q=1'' = [''not a type'', '' ;q=1'']
   \<and> mime_ParseMediaType sample ''not a type'' = None
   \<and> mime_ParseMediaType sample '' ;q=1'' = None
   \<and> GetAcceptedContentType (mime_ParseMediaType sample) (request0\<lparr>header_Accept := ''not a type, ;q=1''\<rparr>) = None
   \<and> DefaultResponder sample (respondMapper sample) sink0
        (request0\<lparr>header_Accept := ''not a type, ;q=1''\<rparr>) (VObj ''{}'')
      = Some (Returns (),
           \<lparr>log = [OpHeaderSet ''X-Content-Type-Options'' ''nosniff'',
                   OpHeaderSet ''Content-Type'' ''application/json; charset=utf-8'',
                   OpWrite (''{}'' @ NL)],
            flusher = False\<rparr>)"
proof -
  let ?r = "request0\<lparr>header_Accept := ''not a type, ;q=1''\<rparr>"
  have sp: "strings_Split ''not a type, ;q=1'' = [''not a type'', '' ;q=1'']"
    by code_simp
  have p1: "mime_ParseMediaType sample ''not a type'' = None"
    by code_simp
  have p2: "mime_ParseMediaType sample '' ;q=1'' = None"
    by code_simp
  have h1: "ctx_ContentType ?r = None"
    by (simp add: request0_def)
  have h2: "\<forall>f \<in> set (strings_Split (header_Accept ?r)). mime_ParseMediaType sample f = None"
    using sp p1 p2 by simp
  have h3: "(if isChan (VObj ''{}'') then channelIntoSlice sample sink0 ?r (VObj ''{}'')
             else (Returns (VObj ''{}''), sink0)) = (Returns (VObj ''{}''), sink0)"
    by simp
  have d: "respondDefault (respondMapper sample) sink0 ?r (VObj ''{}'')
           = (Returns (),
           \<lparr>log = [OpHeaderSet ''X-Content-Type-Options'' ''nosniff'',
                   OpHeaderSet ''Content-Type'' ''application/json; charset=utf-8'',
                   OpWrite (''{}'' @ NL)],
            flusher = False\<rparr>)"
    by code_simp
  show ?thesis
    using unparsable_header_gives_nil_set [OF h1 h2 h3, of ContentTypeJSON "respondMapper sample"] sp p1 p2 d
    by simp
qed

text \<open>
  The claim as it stands says that the set built from such a header is a valid empty
  value and not a null one. For the empty header the result is the nil pointer.
\<close>

theorem nil_set_counterexample:
  "GetAcceptedContentType (mime_ParseMediaType sample) (request0\<lparr>header_Accept := ''''\<rparr>) = None"
  by code_simp

section \<open>The event stream\<close>




section \<open>A cancelled context while a channel is buffered\<close>

text \<open>
  C5. The code at the input that breaks the claim: a channel value, a client that does
  not accept the event stream, and a context that is cancelled before the channel
  delivers or closes. \<open>channelIntoSlice\<close> answers with \<open>http.Error\<close> (status 504, body
  "Server Timeout") and returns nil; \<open>DefaultResponder\<close> does not stop there and hands
  the nil value to the JSON responder, which writes the body "null" after the error
  response. One call has written two bodies.
\<close>

theorem timeout_then_second_body:
  "DefaultResponder sample (respondMapper sample) sink0
     (request0\<lparr>header_Accept := ''application/json''\<rparr>) (VChan [CtxDone])
   = Some (Returns (),
        \<lparr>log = [OpHeaderDel ''Content-Length'',
                OpHeaderSet ''Content-Type'' ''text/plain; charset=utf-8'',
                OpHeaderSet ''X-Content-Type-Options'' ''nosniff'',
                OpWriteHeader 504,
                OpWrite (''Server Timeout'' @ NL),
                OpHeaderSet ''X-Content-Type-Options'' ''nosniff'',
                OpHeaderSet ''Content-Type'' ''application/json; charset=utf-8'',
                OpWrite (''null'' @ NL)],
         flusher = False\<rparr>)
   \<and> writes [OpHeaderDel ''Content-Length'',
              OpHeaderSet ''Content-Type'' ''text/plain; charset=utf-8'',
              OpHeaderSet ''X-Content-Type-Options'' ''nosniff'',
              OpWriteHeader 504,
              OpWrite (''Server Timeout'' @ NL),
              OpHeaderSet ''X-Content-Type-Options'' ''nosniff'',
              OpHeaderSet ''Content-Type'' ''application/json; charset=utf-8'',
              OpWrite (''null'' @ NL)]
       = [''Server Timeout'' @ NL, ''null'' @ NL]"
proof -
  have "DefaultResponder sample (respondMapper sample) sink0
     (request0\<lparr>header_Accept := ''application/json''\<rparr>) (VChan [CtxDone])
   = Some (Returns (),
        \<lparr>log = [OpHeaderDel ''Content-Length'',
                OpHeaderSet ''Content-Type'' ''text/plain; charset=utf-8'',
                OpHeaderSet ''X-Content-Type-Options'' ''nosniff'',
                OpWriteHeader 504,
                OpWrite (''Server Timeout'' @ NL),
                OpHeaderSet ''X-Content-Type-Options'' ''nosniff'',
                OpHeaderSet ''Content-Type'' ''application/json; charset=utf-8'',
                OpWrite (''null'' @ NL)],
         flusher = False\<rparr>)"
    by code_simp
  then show ?thesis
    by simp
qed

section \<open>Registering the nil function\<close>

text \<open>
  C6. The code at the input that breaks the claim: \<open>SetResponder(ContentTypeJSON, nil)\<close>
  on the initial registry. The map keeps the key with the nil function as its value,
  so \<open>SupportedResponders\<close> still contains \<open>application/json\<close>, and a request that
  accepts \<open>application/json\<close> makes \<open>DefaultResponder\<close> call the nil function, which
  panics, whereas a request for the unregistered \<open>application/pdf\<close> is answered by the
  default responder. \<open>SetDecoder(ContentTypeJSON, nil)\<close> likewise leaves
  \<open>application/json\<close> in \<open>SupportedDecoders\<close>.
\<close>

theorem nil_responder_stays_registered:
  "Has (SupportedResponders sample (SetResponder ContentTypeJSON None (respondMapper sample))) ContentTypeJSON
   \<and> DefaultResponder sample (SetResponder ContentTypeJSON None (respondMapper sample)) sink0
        (request0\<lparr>header_Accept := ''application/json''\<rparr>) (VObj ''{}'')
      = Some (Panics NilFuncCall, sink0)
   \<and> DefaultResponder sample (respondMapper sample) sink0
        (request0\<lparr>header_Accept := ''application/pdf''\<rparr>) (VObj ''{}'')
      = Some (Returns (),
             \<lparr>log = [OpHeaderSet ''X-Content-Type-Options'' ''nosniff'',
                     OpHeaderSet ''Content-Type'' ''application/json; charset=utf-8'',
                     OpWrite (''{}'' @ NL)], flusher = False\<rparr>)
   \<and> Has (SupportedDecoders sample_ParseMediaType
           (SetDecoder ContentTypeJSON None
              (decodeMapper (\<lambda>b. Inr (VString b)) (\<lambda>b. Inr (VString b))))) ContentTypeJSON"
proof -
  have a: "Has (SupportedResponders sample (SetResponder ContentTypeJSON None (respondMapper sample))) ContentTypeJSON"
    by code_simp
  have b: "DefaultResponder sample (SetResponder ContentTypeJSON None (respondMapper sample)) sink0
        (request0\<lparr>header_Accept := ''application/json''\<rparr>) (VObj ''{}'')
      = Some (Panics NilFuncCall, sink0)"
    by code_simp
  have c: "DefaultResponder sample (respondMapper sample) sink0
        (request0\<lparr>header_Accept := ''application/pdf''\<rparr>) (VObj ''{}'')
      = Some (Returns (),
             \<lparr>log = [OpHeaderSet ''X-Content-Type-Options'' ''nosniff'',
                     OpHeaderSet ''Content-Type'' ''application/json; charset=utf-8'',
                     OpWrite (''{}'' @ NL)], flusher = False\<rparr>)"
    by code_simp
  have d: "Has (SupportedDecoders sample_ParseMediaType
           (SetDecoder ContentTypeJSON None
              (decodeMapper (\<lambda>b. Inr (VString b)) (\<lambda>b. Inr (VString b))))) ContentTypeJSON"
    by code_simp
  from a b c d show ?thesis by (intro conjI)
qed

end
